theory Spec2Isabelle
  imports Main "HOL-Library.Word"
begin

unbundle bit_operations_syntax

section \<open>Error numbers, objects and the state of an iommufd context\<close>

text \<open>
  The C functions return \<open>0\<close> on success and a negated errno on failure; the model keeps
  the integers. Objects are addressed by their object id (the key of \<open>ictx->objects\<close>),
  physical devices, groups, domains and contexts by a number each. Locks are not
  modelled: every function below runs alone, start to end.
\<close>

definition EPERM :: int where "EPERM = 1"
definition ENOENT :: int where "ENOENT = 2"
definition ENOMEM :: int where "ENOMEM = 12"
definition EBUSY :: int where "EBUSY = 16"
definition ENODEV :: int where "ENODEV = 19"
definition EINVAL :: int where "EINVAL = 22"

datatype iommufd_object_type =
  IOMMUFD_OBJ_NONE | IOMMUFD_OBJ_DEVICE | IOMMUFD_OBJ_HW_PAGETABLE | IOMMUFD_OBJ_IOAS

text \<open>A slot of \<open>ictx->objects\<close>: free, reserved by an allocation that is not yet
  finalized (invisible to lookups), or holding a finalized object.\<close>

datatype xa_slot = XA_EMPTY | XA_ZERO_ENTRY | XA_OBJECT

text \<open>\<open>struct iommufd_device\<close> (device.c), with the \<open>pasid_hwpts\<close> xarray that pasid.c
  uses. \<open>obj.users\<close> lives in \<open>obj_users\<close> of the state, \<open>devices_item\<close> is the
  membership of the device's id in \<open>hwpt_devices\<close>.\<close>

record iommufd_device =
  idev_ictx :: nat
  idev_hwpt :: "nat option"
  idev_dev :: nat
  idev_group :: nat
  idev_enforce_cache_coherency :: bool
  idev_pasid_hwpts :: "nat \<Rightarrow> nat option"

text \<open>\<open>struct iommufd_hw_pagetable\<close>, with the fields the two files read and write.
  \<open>hwpt_devices\<close> is the list headed at \<open>hwpt->devices\<close>, first element first.\<close>

record iommufd_hw_pagetable =
  hwpt_ioas :: nat
  hwpt_domain :: nat
  hwpt_devices :: "nat list"
  hwpt_auto_domain :: bool
  hwpt_enforce_cache_coherency :: bool
  hwpt_msi_cookie :: bool

text \<open>\<open>struct iommufd_ioas\<close>: the list headed at \<open>ioas->hwpt_list\<close> and, of its
  \<open>iopt\<close>, the domains registered in the translation table and the reserved ranges
  as (owner, start, last).\<close>

record iommufd_ioas =
  ioas_hwpt_list :: "nat list"
  iopt_domains :: "nat list"
  iopt_reserved :: "(nat \<times> nat \<times> nat) list"

record iommufd_state =
  idevs :: "nat \<Rightarrow> iommufd_device"
  hwpts :: "nat \<Rightarrow> iommufd_hw_pagetable"
  ioass :: "nat \<Rightarrow> iommufd_ioas"
  obj_users :: "nat \<Rightarrow> int"
  obj_type :: "nat \<Rightarrow> iommufd_object_type"
  xa_objects :: "nat \<Rightarrow> xa_slot"
  next_id :: nat
  group_domains :: "(nat \<times> nat) list"
  dma_owner :: "nat \<Rightarrow> (nat \<times> nat) option"
  group_refs :: "nat \<Rightarrow> int"
  ctx_refs :: "nat \<Rightarrow> int"
  msi_cookie_calls :: "nat list"
  warnings :: nat

text \<open>
  What the collaborators outside these files answer. Each field is the result of one
  external call as a function of its arguments; the functions of device.c and pasid.c are
  parameterised by it, so every theorem holds for every behaviour of the collaborators.
  \<open>flag_allow_unsafe_interrupt\<close> is the bit mask \<open>IOMMUFD_ATTACH_FLAGS_ALLOW_UNSAFE_INTERRUPT\<close>,
  whose header is not part of the sources.
\<close>

record iommufd_env =
  cap_cache_coherency :: "nat \<Rightarrow> bool"
  cap_enforce_cache_coherency :: "nat \<Rightarrow> bool"
  cap_intr_remap :: "nat \<Rightarrow> bool"
  irq_domain_check_msi_remap :: bool
  iommu_group_of :: "nat \<Rightarrow> nat option"
  object_alloc_rc :: int
  hwpt_alloc_result :: "int \<times> nat"
  domain_enforce_cache_coherency :: "nat \<Rightarrow> bool option"
  resv_regions_result :: "nat \<Rightarrow> nat \<Rightarrow> int \<times> nat \<times> (nat \<times> nat) list"
  get_msi_cookie_rc :: "nat \<Rightarrow> int"
  attach_group_rc :: "nat \<Rightarrow> nat \<Rightarrow> int"
  add_domain_rc :: "nat \<Rightarrow> nat \<Rightarrow> int"
  flag_allow_unsafe_interrupt :: "32 word"
  xa_nomem :: bool
  hwpt_attach_device_rc :: "nat \<Rightarrow> iommufd_device \<Rightarrow> nat \<Rightarrow> int"
  hwpt_replace_device_rc :: "iommufd_device \<Rightarrow> nat \<Rightarrow> nat \<Rightarrow> nat \<Rightarrow> int"

subsection \<open>Field updates through a pointer\<close>

definition upd_idev ::
  "nat \<Rightarrow> (iommufd_device \<Rightarrow> iommufd_device) \<Rightarrow> iommufd_state \<Rightarrow> iommufd_state" where
  "upd_idev i f s = s\<lparr>idevs := (idevs s)(i := f (idevs s i))\<rparr>"

definition upd_hwpt ::
  "nat \<Rightarrow> (iommufd_hw_pagetable \<Rightarrow> iommufd_hw_pagetable) \<Rightarrow> iommufd_state \<Rightarrow> iommufd_state" where
  "upd_hwpt h f s = s\<lparr>hwpts := (hwpts s)(h := f (hwpts s h))\<rparr>"

definition upd_ioas ::
  "nat \<Rightarrow> (iommufd_ioas \<Rightarrow> iommufd_ioas) \<Rightarrow> iommufd_state \<Rightarrow> iommufd_state" where
  "upd_ioas a f s = s\<lparr>ioass := (ioass s)(a := f (ioass s a))\<rparr>"

definition refcount_inc :: "nat \<Rightarrow> iommufd_state \<Rightarrow> iommufd_state" where
  "refcount_inc obj s = s\<lparr>obj_users := (obj_users s)(obj := obj_users s obj + 1)\<rparr>"

definition refcount_dec :: "nat \<Rightarrow> iommufd_state \<Rightarrow> iommufd_state" where
  "refcount_dec obj s = s\<lparr>obj_users := (obj_users s)(obj := obj_users s obj - 1)\<rparr>"

definition refcount_inc_not_zero :: "nat \<Rightarrow> iommufd_state \<Rightarrow> bool \<times> iommufd_state" where
  "refcount_inc_not_zero obj s =
     (if obj_users s obj = 0 then (False, s) else (True, refcount_inc obj s))"

definition WARN_ON :: "bool \<Rightarrow> iommufd_state \<Rightarrow> iommufd_state" where
  "WARN_ON c s = (if c then s\<lparr>warnings := Suc (warnings s)\<rparr> else s)"

section \<open>The collaborators of device.c\<close>

text \<open>Modelled from the spec: \<open>reserve_ranges(ioas, device, group) -> (Result,
  msi_window_addr)\<close>, the kernel's \<open>iopt_table_enforce_group_resv_regions\<close>, which is not
  in these files. The ranges it inserts are owned by the device; whatever it had
  inserted when it fails is still there when it returns.\<close>

definition iopt_table_enforce_group_resv_regions ::
  "iommufd_env \<Rightarrow> nat \<Rightarrow> nat \<Rightarrow> nat \<Rightarrow> iommufd_state \<Rightarrow> int \<times> nat \<times> iommufd_state" where
  "iopt_table_enforce_group_resv_regions env ioas dev grp s =
     (case resv_regions_result env dev grp of
        (rc, sw_msi_start, ranges) \<Rightarrow>
          (rc, sw_msi_start,
           upd_ioas ioas (\<lambda>a. a\<lparr>iopt_reserved :=
             iopt_reserved a @ map (\<lambda>r. (dev, fst r, snd r)) ranges\<rparr>) s))"

text \<open>Modelled from the spec: \<open>release_ranges(ioas, device)\<close>, the kernel's
  \<open>iopt_remove_reserved_iova\<close>: every reserved range of that owner goes.\<close>

definition iopt_remove_reserved_iova :: "nat \<Rightarrow> nat \<Rightarrow> iommufd_state \<Rightarrow> iommufd_state" where
  "iopt_remove_reserved_iova ioas owner s =
     upd_ioas ioas (\<lambda>a. a\<lparr>iopt_reserved := filter (\<lambda>r. fst r \<noteq> owner) (iopt_reserved a)\<rparr>) s"

text \<open>Modelled from the spec: \<open>install_msi_window(domain, addr) -> Result\<close>, the kernel's
  \<open>iommu_get_msi_cookie\<close>. Every call is logged with its domain in \<open>msi_cookie_calls\<close>.\<close>

definition iommu_get_msi_cookie ::
  "iommufd_env \<Rightarrow> nat \<Rightarrow> nat \<Rightarrow> iommufd_state \<Rightarrow> int \<times> iommufd_state" where
  "iommu_get_msi_cookie env domain base s =
     (get_msi_cookie_rc env domain, s\<lparr>msi_cookie_calls := msi_cookie_calls s @ [domain]\<rparr>)"

text \<open>Modelled from the spec: \<open>attach_group(domain, group) -> Result\<close> and
  \<open>detach_group(domain, group)\<close>. \<open>group_domains\<close> holds the attachments in force.\<close>

definition iommu_attach_group ::
  "iommufd_env \<Rightarrow> nat \<Rightarrow> nat \<Rightarrow> iommufd_state \<Rightarrow> int \<times> iommufd_state" where
  "iommu_attach_group env domain grp s =
     (let rc = attach_group_rc env domain grp
      in (rc, if rc = 0 then s\<lparr>group_domains := (domain, grp) # group_domains s\<rparr> else s))"

definition iommu_detach_group :: "nat \<Rightarrow> nat \<Rightarrow> iommufd_state \<Rightarrow> iommufd_state" where
  "iommu_detach_group domain grp s =
     s\<lparr>group_domains := remove1 (domain, grp) (group_domains s)\<rparr>"

text \<open>Modelled from the spec: \<open>register_domain(ioas, domain) -> Result\<close> and
  \<open>unregister_domain(ioas, domain)\<close>, the kernel's \<open>iopt_table_add_domain\<close> and
  \<open>iopt_table_remove_domain\<close>.\<close>

definition iopt_table_add_domain ::
  "iommufd_env \<Rightarrow> nat \<Rightarrow> nat \<Rightarrow> iommufd_state \<Rightarrow> int \<times> iommufd_state" where
  "iopt_table_add_domain env ioas domain s =
     (let rc = add_domain_rc env ioas domain
      in (rc, if rc = 0
              then upd_ioas ioas (\<lambda>a. a\<lparr>iopt_domains := iopt_domains a @ [domain]\<rparr>) s
              else s))"

definition iopt_table_remove_domain :: "nat \<Rightarrow> nat \<Rightarrow> iommufd_state \<Rightarrow> iommufd_state" where
  "iopt_table_remove_domain ioas domain s =
     upd_ioas ioas (\<lambda>a. a\<lparr>iopt_domains := remove1 domain (iopt_domains a)\<rparr>) s"

section \<open>device.c: the shared attach algorithm\<close>

definition iommufd_device_setup_msi ::
  "iommufd_env \<Rightarrow> nat \<Rightarrow> nat \<Rightarrow> nat \<Rightarrow> 32 word \<Rightarrow> iommufd_state \<Rightarrow> int \<times> iommufd_state" where
  "iommufd_device_setup_msi env idev hwpt sw_msi_start flags s =
     (if cap_intr_remap env (idev_dev (idevs s idev)) then (0, s)
      else if irq_domain_check_msi_remap env then
        (if sw_msi_start = 0 then (- EPERM, WARN_ON True s)
         else if hwpt_msi_cookie (hwpts s hwpt) then (0, s)
         else
           (case iommu_get_msi_cookie env (hwpt_domain (hwpts s hwpt)) sw_msi_start s of
              (rc, s1) \<Rightarrow>
                if rc \<noteq> 0 \<and> rc \<noteq> - ENODEV then (rc, s1)
                else (0, upd_hwpt hwpt (\<lambda>h. h\<lparr>hwpt_msi_cookie := True\<rparr>) s1)))
      else if flags AND flag_allow_unsafe_interrupt env = 0 then (- EPERM, s)
      else (0, s))"

definition iommufd_hw_pagetable_has_group :: "iommufd_state \<Rightarrow> nat \<Rightarrow> nat \<Rightarrow> bool" where
  "iommufd_hw_pagetable_has_group s hwpt grp =
     list_ex (\<lambda>cur_dev. idev_group (idevs s cur_dev) = grp) (hwpt_devices (hwpts s hwpt))"

text \<open>The exit labels \<open>out_iova\<close> and \<open>out_detach\<close> of \<open>iommufd_device_do_attach\<close>;
  \<open>out_detach\<close> falls through to \<open>out_iova\<close>.\<close>

definition out_iova :: "nat \<Rightarrow> nat \<Rightarrow> int \<Rightarrow> iommufd_state \<Rightarrow> int \<times> iommufd_state" where
  "out_iova idev hwpt rc s =
     (rc, iopt_remove_reserved_iova (hwpt_ioas (hwpts s hwpt)) (idev_dev (idevs s idev)) s)"

definition out_detach :: "nat \<Rightarrow> nat \<Rightarrow> int \<Rightarrow> iommufd_state \<Rightarrow> int \<times> iommufd_state" where
  "out_detach idev hwpt rc s =
     out_iova idev hwpt rc
       (iommu_detach_group (hwpt_domain (hwpts s hwpt)) (idev_group (idevs s idev)) s)"

text \<open>\<open>iommufd_device_do_attach\<close>, in two parts. Lines 228 to 265, from the
  reservation of the group's regions to the three exit labels, on the state the
  coherency upgrade has left:\<close>

definition do_attach_reserve_onwards ::
  "iommufd_env \<Rightarrow> nat \<Rightarrow> nat \<Rightarrow> 32 word \<Rightarrow> iommufd_state \<Rightarrow> int \<times> iommufd_state" where
  "do_attach_reserve_onwards env idev hwpt flags s1 =
     (case iopt_table_enforce_group_resv_regions env (hwpt_ioas (hwpts s1 hwpt))
             (idev_dev (idevs s1 idev)) (idev_group (idevs s1 idev)) s1 of
        (rc2, sw_msi_start, s2) \<Rightarrow>
          if rc2 \<noteq> 0 then out_iova idev hwpt rc2 s2
          else
           (case iommufd_device_setup_msi env idev hwpt sw_msi_start flags s2 of
              (rc3, s3) \<Rightarrow>
                if rc3 \<noteq> 0 then out_iova idev hwpt rc3 s3
                else
                 (case (if \<not> iommufd_hw_pagetable_has_group s3 hwpt (idev_group (idevs s3 idev))
                        then iommu_attach_group env (hwpt_domain (hwpts s3 hwpt))
                               (idev_group (idevs s3 idev)) s3
                        else (0, s3)) of
                    (rc4, s4) \<Rightarrow>
                      if rc4 \<noteq> 0 then out_iova idev hwpt rc4 s4
                      else
                       (case (if hwpt_devices (hwpts s4 hwpt) = []
                              then iopt_table_add_domain env (hwpt_ioas (hwpts s4 hwpt))
                                     (hwpt_domain (hwpts s4 hwpt)) s4
                              else (0, s4)) of
                          (rc5, s5) \<Rightarrow>
                            if rc5 \<noteq> 0 then out_detach idev hwpt rc5 s5
                            else
                              (0, upd_hwpt hwpt
                                    (\<lambda>h. h\<lparr>hwpt_devices := idev # hwpt_devices h\<rparr>)
                                    (refcount_inc hwpt
                                      (upd_idev idev (\<lambda>d. d\<lparr>idev_hwpt := Some hwpt\<rparr>) s5)))))))"

text \<open>Lines 208 to 226, the coherency upgrade: the driver's \<open>enforce_cache_coherency\<close>
  op, when the domain has one, overwrites the flag of the HWPT; a flag still unset
  ends the attach with \<open>-EINVAL\<close> (and a warning when the HWPT has no device).\<close>

definition iommufd_device_do_attach ::
  "iommufd_env \<Rightarrow> nat \<Rightarrow> nat \<Rightarrow> 32 word \<Rightarrow> iommufd_state \<Rightarrow> int \<times> iommufd_state" where
  "iommufd_device_do_attach env idev hwpt flags s =
     (if idev_enforce_cache_coherency (idevs s idev) \<and>
         \<not> hwpt_enforce_cache_coherency (hwpts s hwpt)
      then
        (case domain_enforce_cache_coherency env (hwpt_domain (hwpts s hwpt)) of
           None \<Rightarrow> (- EINVAL, WARN_ON (hwpt_devices (hwpts s hwpt) = []) s)
         | Some b \<Rightarrow>
             if \<not> b
             then (- EINVAL,
                   WARN_ON (hwpt_devices (hwpts s hwpt) = [])
                     (upd_hwpt hwpt (\<lambda>h. h\<lparr>hwpt_enforce_cache_coherency := b\<rparr>) s))
             else do_attach_reserve_onwards env idev hwpt flags
                    (upd_hwpt hwpt (\<lambda>h. h\<lparr>hwpt_enforce_cache_coherency := b\<rparr>) s))
      else do_attach_reserve_onwards env idev hwpt flags s)"

section \<open>The object registry and the ownership layer\<close>

definition zero_device :: iommufd_device where
  "zero_device = \<lparr>idev_ictx = 0, idev_hwpt = None, idev_dev = 0, idev_group = 0,
     idev_enforce_cache_coherency = False, idev_pasid_hwpts = (\<lambda>pasid. None)\<rparr>"

definition zero_hw_pagetable :: iommufd_hw_pagetable where
  "zero_hw_pagetable = \<lparr>hwpt_ioas = 0, hwpt_domain = 0, hwpt_devices = [],
     hwpt_auto_domain = False, hwpt_enforce_cache_coherency = False, hwpt_msi_cookie = False\<rparr>"

text \<open>Modelled from the spec: \<open>alloc_object(context, kind) -> handle\<close>, the kernel's
  \<open>iommufd_object_alloc\<close>. The new object is zeroed, holds the creating reference
  (\<open>users = 1\<close>), and its id is reserved but not yet visible. \<open>Inl rc\<close> is \<open>ERR_PTR(rc)\<close>.\<close>

definition iommufd_object_alloc ::
  "iommufd_env \<Rightarrow> iommufd_object_type \<Rightarrow> iommufd_state \<Rightarrow> (int + nat) \<times> iommufd_state" where
  "iommufd_object_alloc env ty s =
     (if object_alloc_rc env \<noteq> 0 then (Inl (object_alloc_rc env), s)
      else (Inr (next_id s),
            s\<lparr>idevs := (idevs s)(next_id s := zero_device),
              hwpts := (hwpts s)(next_id s := zero_hw_pagetable),
              obj_users := (obj_users s)(next_id s := 1),
              obj_type := (obj_type s)(next_id s := ty),
              xa_objects := (xa_objects s)(next_id s := XA_ZERO_ENTRY),
              next_id := Suc (next_id s)\<rparr>))"

text \<open>Modelled from the spec: \<open>finalize(handle)\<close> makes the object visible to lookups,
  \<open>abort(handle)\<close> destroys an object that never was.\<close>

definition iommufd_object_finalize :: "nat \<Rightarrow> iommufd_state \<Rightarrow> iommufd_state" where
  "iommufd_object_finalize obj s = s\<lparr>xa_objects := (xa_objects s)(obj := XA_OBJECT)\<rparr>"

definition iommufd_object_abort_and_destroy :: "nat \<Rightarrow> iommufd_state \<Rightarrow> iommufd_state" where
  "iommufd_object_abort_and_destroy obj s =
     s\<lparr>xa_objects := (xa_objects s)(obj := XA_EMPTY),
       obj_type := (obj_type s)(obj := IOMMUFD_OBJ_NONE),
       obj_users := (obj_users s)(obj := 0)\<rparr>"

text \<open>Modelled from the spec: the destruction of an object by a caller that holds a
  use-reference, the kernel's \<open>iommufd_object_destroy_user\<close>, which is not in these
  files. The spec: an HWPT is "destroyed when reference count reaches zero, which for an
  auto-created HWPT happens automatically when its last device detaches", and "an
  object is destroyed only when its reference count transitions to zero". So the
  caller's reference is dropped in every case; if the creating reference is then the
  only one left, it is dropped too and the object is destroyed. The result says whether
  the object was destroyed.\<close>

definition iommufd_object_destroy_user :: "nat \<Rightarrow> iommufd_state \<Rightarrow> bool \<times> iommufd_state" where
  "iommufd_object_destroy_user obj s =
     (let s1 = refcount_dec obj s
      in if obj_users s1 obj = 1
         then (True, s1\<lparr>xa_objects := (xa_objects s1)(obj := XA_EMPTY),
                        obj_type := (obj_type s1)(obj := IOMMUFD_OBJ_NONE),
                        obj_users := (obj_users s1)(obj := 0)\<rparr>)
         else (False, s1))"

text \<open>Modelled from the spec: \<open>lookup(context, id, expected_kind) -> Result<object>\<close>, the
  kernel's \<open>iommufd_get_object\<close> with \<open>IOMMUFD_OBJ_ANY\<close>, and \<open>iommufd_put_object\<close>. A
  lookup finds finalized objects only and holds a reference until the put.\<close>

definition iommufd_get_object :: "nat \<Rightarrow> iommufd_state \<Rightarrow> (int + nat) \<times> iommufd_state" where
  "iommufd_get_object oid s =
     (if xa_objects s oid = XA_OBJECT \<and> obj_users s oid \<noteq> 0
      then (Inr oid, refcount_inc oid s) else (Inl (- ENOENT), s))"

definition iommufd_put_object :: "nat \<Rightarrow> iommufd_state \<Rightarrow> iommufd_state" where
  "iommufd_put_object obj s = refcount_dec obj s"

text \<open>Modelled from the spec: the allocation of "a new HWPT against this IOAS and this
  device's hardware topology", the kernel's \<open>iommufd_hw_pagetable_alloc\<close> (not in these
  files): an object allocation and a fresh hardware domain, or an error.\<close>

definition iommufd_hw_pagetable_alloc ::
  "iommufd_env \<Rightarrow> nat \<Rightarrow> nat \<Rightarrow> iommufd_state \<Rightarrow> (int + nat) \<times> iommufd_state" where
  "iommufd_hw_pagetable_alloc env ioas dev s =
     (if fst (hwpt_alloc_result env) \<noteq> 0 then (Inl (fst (hwpt_alloc_result env)), s)
      else (Inr (next_id s),
            s\<lparr>hwpts := (hwpts s)(next_id s :=
                 zero_hw_pagetable\<lparr>hwpt_ioas := ioas, hwpt_domain := snd (hwpt_alloc_result env)\<rparr>),
              obj_users := (obj_users s)(next_id s := 1),
              obj_type := (obj_type s)(next_id s := IOMMUFD_OBJ_HW_PAGETABLE),
              xa_objects := (xa_objects s)(next_id s := XA_ZERO_ENTRY),
              next_id := Suc (next_id s)\<rparr>))"

text \<open>Modelled from the spec: \<open>claim_owner(device, context) -> Result\<close> and
  \<open>release_owner(device)\<close>. \<open>dma_owner\<close> maps an owned device to its owner and the
  number of claims the owner holds beyond the first; a claim by anybody else fails with
  the errno the ownership layer uses for it (the spec's AlreadyOwned), a parameter of
  the model.\<close>

definition iommu_device_claim_dma_owner ::
  "int \<Rightarrow> nat \<Rightarrow> nat \<Rightarrow> iommufd_state \<Rightarrow> int \<times> iommufd_state" where
  "iommu_device_claim_dma_owner already_owned dev owner s =
     (case dma_owner s dev of
        None \<Rightarrow> (0, s\<lparr>dma_owner := (dma_owner s)(dev := Some (owner, 0))\<rparr>)
      | Some (cur, extra) \<Rightarrow>
          if cur = owner then (0, s\<lparr>dma_owner := (dma_owner s)(dev := Some (cur, Suc extra))\<rparr>)
          else (already_owned, s))"

definition iommu_device_release_dma_owner :: "nat \<Rightarrow> iommufd_state \<Rightarrow> iommufd_state" where
  "iommu_device_release_dma_owner dev s =
     (case dma_owner s dev of
        None \<Rightarrow> s
      | Some (cur, extra) \<Rightarrow>
          s\<lparr>dma_owner := (dma_owner s)(dev :=
               (case extra of 0 \<Rightarrow> None | Suc fewer \<Rightarrow> Some (cur, fewer)))\<rparr>)"

text \<open>Modelled from the spec: the device-group handle of a device, which the binding
  holds until it is destroyed (the kernel's \<open>iommu_group_get\<close> and \<open>iommu_group_put\<close>,
  with a reference count per group), and the reference on the context
  (\<open>iommufd_ctx_get\<close>).\<close>

definition iommu_group_get ::
  "iommufd_env \<Rightarrow> nat \<Rightarrow> iommufd_state \<Rightarrow> nat option \<times> iommufd_state" where
  "iommu_group_get env dev s =
     (case iommu_group_of env dev of
        None \<Rightarrow> (None, s)
      | Some grp \<Rightarrow> (Some grp, s\<lparr>group_refs := (group_refs s)(grp := group_refs s grp + 1)\<rparr>))"

definition iommu_group_put :: "nat \<Rightarrow> iommufd_state \<Rightarrow> iommufd_state" where
  "iommu_group_put grp s = s\<lparr>group_refs := (group_refs s)(grp := group_refs s grp - 1)\<rparr>"

definition iommufd_ctx_get :: "nat \<Rightarrow> iommufd_state \<Rightarrow> iommufd_state" where
  "iommufd_ctx_get ictx s = s\<lparr>ctx_refs := (ctx_refs s)(ictx := ctx_refs s ictx + 1)\<rparr>"

section \<open>device.c: bind, automatic domains, attach and detach\<close>

text \<open>\<open>iommufd_device_bind\<close>. \<open>Inl rc\<close> is \<open>ERR_PTR(rc)\<close>; \<open>Inr idev\<close> is the new
  device object, whose id is also what \<open>*id\<close> receives.\<close>

definition iommufd_device_bind ::
  "iommufd_env \<Rightarrow> int \<Rightarrow> nat \<Rightarrow> nat \<Rightarrow> iommufd_state \<Rightarrow> (int + nat) \<times> iommufd_state" where
  "iommufd_device_bind env already_owned ictx dev s =
     (if \<not> cap_cache_coherency env dev then (Inl (- EINVAL), s)
      else
        (case iommu_group_get env dev s of
           (None, s1) \<Rightarrow> (Inl (- ENODEV), s1)
         | (Some grp, s1) \<Rightarrow>
            (case iommu_device_claim_dma_owner already_owned dev ictx s1 of
               (rc, s2) \<Rightarrow>
                 if rc \<noteq> 0 then (Inl rc, iommu_group_put grp s2)
                 else
                  (case iommufd_object_alloc env IOMMUFD_OBJ_DEVICE s2 of
                     (Inl rc3, s3) \<Rightarrow>
                       (Inl rc3, iommu_group_put grp (iommu_device_release_dma_owner dev s3))
                   | (Inr idev, s3) \<Rightarrow>
                       (Inr idev,
                        iommufd_object_finalize idev
                          (upd_idev idev (\<lambda>d. d\<lparr>idev_group := grp\<rparr>)
                            (refcount_inc idev
                              (upd_idev idev
                                 (\<lambda>d. d\<lparr>idev_dev := dev,
                                        idev_enforce_cache_coherency :=
                                          cap_enforce_cache_coherency env dev\<rparr>)
                                 (iommufd_ctx_get ictx
                                   (upd_idev idev (\<lambda>d. d\<lparr>idev_ictx := ictx\<rparr>) s3))))))))))"

text \<open>The \<open>list_for_each_entry\<close> loop of \<open>iommufd_device_auto_get_domain\<close> over the
  members of \<open>ioas->hwpt_list\<close>. \<open>Some rc\<close> is a \<open>goto out_unlock\<close> with that \<open>rc\<close>,
  \<open>None\<close> is the loop running off the end of the list.\<close>

fun auto_get_domain_loop ::
  "iommufd_env \<Rightarrow> nat \<Rightarrow> 32 word \<Rightarrow> nat list \<Rightarrow> iommufd_state \<Rightarrow> int option \<times> iommufd_state" where
  "auto_get_domain_loop env idev flags [] s = (None, s)"
| "auto_get_domain_loop env idev flags (hwpt # rest) s =
     (if \<not> hwpt_auto_domain (hwpts s hwpt) \<or> \<not> fst (refcount_inc_not_zero hwpt s)
      then auto_get_domain_loop env idev flags rest s
      else
        (case iommufd_device_do_attach env idev hwpt flags (snd (refcount_inc_not_zero hwpt s)) of
           (rc, s2) \<Rightarrow>
             if rc \<noteq> 0
             then (if rc = - EINVAL
                   then auto_get_domain_loop env idev flags rest (refcount_dec hwpt s2)
                   else (Some rc, refcount_dec hwpt s2))
             else (Some rc, refcount_dec hwpt s2)))"

definition iommufd_device_auto_get_domain ::
  "iommufd_env \<Rightarrow> nat \<Rightarrow> nat \<Rightarrow> 32 word \<Rightarrow> iommufd_state \<Rightarrow> int \<times> iommufd_state" where
  "iommufd_device_auto_get_domain env idev ioas flags s =
     (case auto_get_domain_loop env idev flags (ioas_hwpt_list (ioass s ioas)) s of
        (Some rc, s1) \<Rightarrow> (rc, s1)
      | (None, s1) \<Rightarrow>
         (case iommufd_hw_pagetable_alloc env ioas (idev_dev (idevs s1 idev)) s1 of
            (Inl rc, s2) \<Rightarrow> (rc, s2)
          | (Inr hwpt, s2) \<Rightarrow>
             (case iommufd_device_do_attach env idev hwpt flags
                     (upd_hwpt hwpt (\<lambda>h. h\<lparr>hwpt_auto_domain := True\<rparr>) s2) of
                (rc, s4) \<Rightarrow>
                  if rc \<noteq> 0 then (rc, iommufd_object_abort_and_destroy hwpt s4)
                  else (0, iommufd_object_finalize hwpt
                             (upd_ioas ioas
                                (\<lambda>a. a\<lparr>ioas_hwpt_list := ioas_hwpt_list a @ [hwpt]\<rparr>) s4)))))"

text \<open>\<open>iommufd_device_attach\<close>: the result is \<open>rc\<close>, the value left in \<open>*pt_id\<close>, and
  the state.\<close>

definition iommufd_device_attach ::
  "iommufd_env \<Rightarrow> nat \<Rightarrow> nat \<Rightarrow> 32 word \<Rightarrow> iommufd_state \<Rightarrow> int \<times> nat \<times> iommufd_state" where
  "iommufd_device_attach env idev pt_id flags s =
     (case iommufd_get_object pt_id s of
        (Inl rc, s0) \<Rightarrow> (rc, pt_id, s0)
      | (Inr pt_obj, s0) \<Rightarrow>
         (case (case obj_type s0 pt_obj of
                  IOMMUFD_OBJ_HW_PAGETABLE \<Rightarrow>
                    (case iommufd_device_do_attach env idev pt_obj flags s0 of
                       (rc, s1) \<Rightarrow>
                         if rc \<noteq> 0 then (rc, s1)
                         else (0, upd_ioas (hwpt_ioas (hwpts s1 pt_obj))
                                    (\<lambda>a. a\<lparr>ioas_hwpt_list := ioas_hwpt_list a @ [pt_obj]\<rparr>) s1))
                | IOMMUFD_OBJ_IOAS \<Rightarrow> iommufd_device_auto_get_domain env idev pt_obj flags s0
                | _ \<Rightarrow> (- EINVAL, s0)) of
            (rc, s2) \<Rightarrow>
              if rc \<noteq> 0 then (rc, pt_id, iommufd_put_object pt_obj s2)
              else (case idev_hwpt (idevs s2 idev) of
                      None \<Rightarrow> (0, pt_id, iommufd_put_object pt_obj (refcount_inc idev s2))
                    | Some hwpt \<Rightarrow> (0, hwpt, iommufd_put_object pt_obj (refcount_inc idev s2)))))"

text \<open>\<open>iommufd_device_detach\<close> returns nothing. It reads \<open>idev->hwpt\<close> at once, so on a
  device that is not attached it dereferences NULL: \<open>None\<close>.\<close>

definition iommufd_device_detach :: "nat \<Rightarrow> iommufd_state \<Rightarrow> iommufd_state option" where
  "iommufd_device_detach idev s =
     (case idev_hwpt (idevs s idev) of
        None \<Rightarrow> None
      | Some hwpt \<Rightarrow>
         (let ioas = hwpt_ioas (hwpts s hwpt);
              s1 = upd_hwpt hwpt (\<lambda>h. h\<lparr>hwpt_devices := remove1 idev (hwpt_devices h)\<rparr>) s;
              s2 = (if \<not> iommufd_hw_pagetable_has_group s1 hwpt (idev_group (idevs s1 idev))
                    then iommu_detach_group (hwpt_domain (hwpts s1 hwpt)) (idev_group (idevs s1 idev))
                           (iopt_remove_reserved_iova ioas (idev_dev (idevs s1 idev))
                              (if hwpt_devices (hwpts s1 hwpt) = []
                               then upd_ioas ioas
                                      (\<lambda>a. a\<lparr>ioas_hwpt_list := remove1 hwpt (ioas_hwpt_list a)\<rparr>)
                                      (iopt_table_remove_domain ioas (hwpt_domain (hwpts s1 hwpt)) s1)
                               else s1))
                    else s1);
              s3 = (if hwpt_auto_domain (hwpts s2 hwpt)
                    then snd (iommufd_object_destroy_user hwpt s2)
                    else refcount_dec hwpt s2)
          in Some (refcount_dec idev (upd_idev idev (\<lambda>d. d\<lparr>idev_hwpt := None\<rparr>) s3))))"

section \<open>pasid.c\<close>











section \<open>Reference behaviour and concrete configurations\<close>


text \<open>An empty context, collaborators that always succeed, a hardware layer that
  accepts a PASID set-up only when it finds the mapping already in the xarray of the
  device, and device 1 with PASID 5 attached to an HWPT.\<close>

definition zero_ioas :: iommufd_ioas where
  "zero_ioas = \<lparr>ioas_hwpt_list = [], iopt_domains = [], iopt_reserved = []\<rparr>"

definition init_state :: iommufd_state where
  "init_state = \<lparr>idevs = (\<lambda>i. zero_device), hwpts = (\<lambda>h. zero_hw_pagetable),
     ioass = (\<lambda>a. zero_ioas), obj_users = (\<lambda>obj. 0), obj_type = (\<lambda>obj. IOMMUFD_OBJ_NONE),
     xa_objects = (\<lambda>obj. XA_EMPTY), next_id = 1, group_domains = [],
     dma_owner = (\<lambda>dev. None), group_refs = (\<lambda>grp. 0), ctx_refs = (\<lambda>ictx. 0),
     msi_cookie_calls = [], warnings = 0\<rparr>"

definition quiet_env :: iommufd_env where
  "quiet_env = \<lparr>cap_cache_coherency = (\<lambda>dev. True),
     cap_enforce_cache_coherency = (\<lambda>dev. False),
     cap_intr_remap = (\<lambda>dev. True),
     irq_domain_check_msi_remap = False,
     iommu_group_of = (\<lambda>dev. Some dev),
     object_alloc_rc = 0,
     hwpt_alloc_result = (0, 70),
     domain_enforce_cache_coherency = (\<lambda>domain. Some True),
     resv_regions_result = (\<lambda>dev grp. (0, 0, [])),
     get_msi_cookie_rc = (\<lambda>domain. 0),
     attach_group_rc = (\<lambda>domain grp. 0),
     add_domain_rc = (\<lambda>ioas domain. 0),
     flag_allow_unsafe_interrupt = 1,
     xa_nomem = False,
     hwpt_attach_device_rc = (\<lambda>hwpt d pasid. 0),
     hwpt_replace_device_rc = (\<lambda>d pasid hwpt old. 0)\<rparr>"



text \<open>A context with the address space 10 and two manually created HWPTs of it: HWPT 2
  with no device, HWPT 3 with the attached device 9. Devices 1 and 4 are bound and not
  attached; device 1 needs enforced cache coherency.\<close>

definition two_hwpt_state :: iommufd_state where
  "two_hwpt_state = init_state
     \<lparr>idevs := (\<lambda>i. zero_device)
        (1 := zero_device\<lparr>idev_ictx := 50, idev_dev := 101, idev_group := 201,
                          idev_enforce_cache_coherency := True\<rparr>,
         4 := zero_device\<lparr>idev_ictx := 50, idev_dev := 104, idev_group := 204\<rparr>,
         9 := zero_device\<lparr>idev_ictx := 50, idev_hwpt := Some 3, idev_dev := 109,
                          idev_group := 209\<rparr>),
      hwpts := (\<lambda>h. zero_hw_pagetable)
        (2 := zero_hw_pagetable\<lparr>hwpt_ioas := 10, hwpt_domain := 20\<rparr>,
         3 := zero_hw_pagetable\<lparr>hwpt_ioas := 10, hwpt_domain := 30, hwpt_devices := [9]\<rparr>),
      ioass := (\<lambda>a. zero_ioas)
        (10 := zero_ioas\<lparr>ioas_hwpt_list := [3], iopt_domains := [30]\<rparr>),
      obj_users := (\<lambda>obj. 0)(1 := 2, 4 := 2, 9 := 3, 2 := 1, 3 := 2, 10 := 1),
      obj_type := (\<lambda>obj. IOMMUFD_OBJ_NONE)
        (1 := IOMMUFD_OBJ_DEVICE, 4 := IOMMUFD_OBJ_DEVICE, 9 := IOMMUFD_OBJ_DEVICE,
         2 := IOMMUFD_OBJ_HW_PAGETABLE,
         3 := IOMMUFD_OBJ_HW_PAGETABLE, 10 := IOMMUFD_OBJ_IOAS),
      xa_objects := (\<lambda>obj. XA_EMPTY)
        (1 := XA_OBJECT, 4 := XA_OBJECT, 9 := XA_OBJECT, 2 := XA_OBJECT, 3 := XA_OBJECT,
         10 := XA_OBJECT),
      next_id := 11,
      group_domains := [(30, 209)]\<rparr>"

definition refuse_upgrade :: "nat \<Rightarrow> bool option" where
  "refuse_upgrade domain = Some False"

definition resv_regions_nomem :: "nat \<Rightarrow> nat \<Rightarrow> int \<times> nat \<times> (nat \<times> nat) list" where
  "resv_regions_nomem dev grp = (- ENOMEM, 0, [])"

text \<open>A sequence of attach calls to one HWPT, each with its own device, flags and
  answers of the collaborators; the result is the list of return codes and the final
  state.\<close>

fun do_attach_seq ::
  "(iommufd_env \<times> nat \<times> 32 word) list \<Rightarrow> nat \<Rightarrow> iommufd_state \<Rightarrow> int list \<times> iommufd_state" where
  "do_attach_seq [] hwpt s = ([], s)"
| "do_attach_seq ((env, idev, flags) # rest) hwpt s =
     (case iommufd_device_do_attach env idev hwpt flags s of
        (rc, s1) \<Rightarrow>
          (case do_attach_seq rest hwpt s1 of (rcs, s2) \<Rightarrow> (rc # rcs, s2)))"

text \<open>A platform that isolates interrupts with a software MSI window at address 4096,
  and a platform that does not isolate them at all.\<close>

definition resv_regions_sw_msi :: "nat \<Rightarrow> nat \<Rightarrow> int \<times> nat \<times> (nat \<times> nat) list" where
  "resv_regions_sw_msi dev grp = (0, 4096, [])"

definition no_intr_remap :: "nat \<Rightarrow> bool" where
  "no_intr_remap dev = False"

definition sw_msi_env :: iommufd_env where
  "sw_msi_env = quiet_env\<lparr>cap_intr_remap := no_intr_remap, irq_domain_check_msi_remap := True,
                          resv_regions_result := resv_regions_sw_msi\<rparr>"

definition unsafe_env :: iommufd_env where
  "unsafe_env = quiet_env\<lparr>cap_intr_remap := no_intr_remap\<rparr>"

text \<open>A device without the cache-coherency capability, and the context of
  \<open>two_hwpt_state\<close> with the physical device 104 claimed by another owner, 60.\<close>

definition no_cache_coherency :: "nat \<Rightarrow> bool" where
  "no_cache_coherency dev = False"

definition device_104_owned_by_60 :: iommufd_state where
  "device_104_owned_by_60 =
     two_hwpt_state\<lparr>dma_owner := (\<lambda>dev. None)(104 := Some (60, 0))\<rparr>"

text \<open>Scenario A of the specification: in a context that holds the address space 10,
  the physical devices 101 and 102 are bound and attached through the address space.\<close>

definition ioas_only_state :: iommufd_state where
  "ioas_only_state = init_state
     \<lparr>obj_users := (\<lambda>obj. 0)(10 := 1),
      obj_type := (\<lambda>obj. IOMMUFD_OBJ_NONE)(10 := IOMMUFD_OBJ_IOAS),
      xa_objects := (\<lambda>obj. XA_EMPTY)(10 := XA_OBJECT),
      next_id := 11\<rparr>"

definition scenario_a_first_attached :: iommufd_state where
  "scenario_a_first_attached =
     snd (snd (iommufd_device_attach quiet_env 11 10 0
       (snd (iommufd_device_bind quiet_env (- EBUSY) 50 101 ioas_only_state))))"

definition scenario_a_both_attached :: iommufd_state where
  "scenario_a_both_attached =
     snd (snd (iommufd_device_attach quiet_env 13 10 0
       (snd (iommufd_device_bind quiet_env (- EBUSY) 50 102 scenario_a_first_attached))))"

definition scenario_a_one_left :: iommufd_state where
  "scenario_a_one_left = the (iommufd_device_detach 11 scenario_a_both_attached)"



section \<open>Auxiliary facts\<close>

lemmas prim_defs = upd_hwpt_def upd_idev_def upd_ioas_def refcount_inc_def
  refcount_dec_def WARN_ON_def

lemma fun_upd_same_eq: "(f(x := a) = f(x := b)) = (a = b)"
  by (auto dest: fun_upd_eqD)

lemma hwpt_flag_idem:
  "hwpt_enforce_cache_coherency r \<Longrightarrow> r\<lparr>hwpt_enforce_cache_coherency := True\<rparr> = r"
  "\<not> hwpt_enforce_cache_coherency r \<Longrightarrow> r\<lparr>hwpt_enforce_cache_coherency := False\<rparr> = r"
  "hwpt_msi_cookie r \<Longrightarrow> r\<lparr>hwpt_msi_cookie := True\<rparr> = r"
  "\<not> hwpt_msi_cookie r \<Longrightarrow> r\<lparr>hwpt_msi_cookie := False\<rparr> = r"
  by (cases r; simp)+

lemma setup_msi_shape:
  assumes "iommufd_device_setup_msi env idev hwpt msi flags s = (rc, s')"
  shows "s' = s\<lparr>hwpts := (hwpts s)(hwpt := (hwpts s hwpt)\<lparr>hwpt_msi_cookie := hwpt_msi_cookie (hwpts s' hwpt)\<rparr>),
                       msi_cookie_calls := msi_cookie_calls s', warnings := warnings s'\<rparr>"
    using assms
    unfolding iommufd_device_setup_msi_def iommu_get_msi_cookie_def prim_defs
    by (auto simp: hwpt_flag_idem split: if_splits prod.splits)

lemma setup_msi_shapeE:
  assumes "iommufd_device_setup_msi env idev hwpt msi flags s = (rc, s')"
  obtains m c w where "s' = s\<lparr>hwpts := (hwpts s)(hwpt := (hwpts s hwpt)\<lparr>hwpt_msi_cookie := m\<rparr>),
                       msi_cookie_calls := c, warnings := w\<rparr>"
  using setup_msi_shape[OF assms] by blast

lemma filter_own_ranges:
  "filter (\<lambda>r. fst r \<noteq> dev) (xs @ map (\<lambda>r. (dev, fst r, snd r)) ranges) = filter (\<lambda>r. fst r \<noteq> dev) xs"
  by (induction ranges) auto

lemma reserve_onwards_fail:
  assumes run: "do_attach_reserve_onwards env idev hwpt flags s = (rc, s')" and rc: "rc \<noteq> 0"
  shows "s' = s\<lparr>hwpts := (hwpts s)(hwpt := (hwpts s hwpt)\<lparr>hwpt_msi_cookie := hwpt_msi_cookie (hwpts s' hwpt)\<rparr>),
              ioass := (ioass s)(hwpt_ioas (hwpts s hwpt) := (ioass s (hwpt_ioas (hwpts s hwpt)))
                 \<lparr>iopt_reserved := filter (\<lambda>r. fst r \<noteq> idev_dev (idevs s idev))
                     (iopt_reserved (ioass s (hwpt_ioas (hwpts s hwpt))))\<rparr>),
              msi_cookie_calls := msi_cookie_calls s', warnings := warnings s'\<rparr>"
proof -
  obtain rc2 sw ranges where rr: "resv_regions_result env (idev_dev (idevs s idev)) (idev_group (idevs s idev)) = (rc2, sw, ranges)"
    by (metis prod_cases3)
  define s2 where "s2 = upd_ioas (hwpt_ioas (hwpts s hwpt)) (\<lambda>a. a\<lparr>iopt_reserved :=
             iopt_reserved a @ map (\<lambda>r. (idev_dev (idevs s idev), fst r, snd r)) ranges\<rparr>) s"
  have r2: "iopt_table_enforce_group_resv_regions env (hwpt_ioas (hwpts s hwpt))
             (idev_dev (idevs s idev)) (idev_group (idevs s idev)) s = (rc2, sw, s2)"
    by (simp add: iopt_table_enforce_group_resv_regions_def rr s2_def)
  show ?thesis
  proof (cases "rc2 = 0")
    case False
    with run r2 have "s' = snd (out_iova idev hwpt rc2 s2)"
      by (simp add: do_attach_reserve_onwards_def)
    then show ?thesis
      by (simp add: out_iova_def iopt_remove_reserved_iova_def s2_def prim_defs filter_own_ranges)
  next
    case True
    obtain rc3 s3 where r3: "iommufd_device_setup_msi env idev hwpt sw flags s2 = (rc3, s3)"
      by (metis surj_pair)
    obtain m c w where s3: "s3 = s2\<lparr>hwpts := (hwpts s2)(hwpt := (hwpts s2 hwpt)\<lparr>hwpt_msi_cookie := m\<rparr>),
                       msi_cookie_calls := c, warnings := w\<rparr>"
      using r3 by (rule setup_msi_shapeE)
    show ?thesis
      using run rc r2 r3 True
      unfolding do_attach_reserve_onwards_def
      by (auto simp: s3 s2_def out_iova_def out_detach_def iopt_remove_reserved_iova_def
            iommu_attach_group_def iommu_detach_group_def iopt_table_add_domain_def
            iommufd_hw_pagetable_has_group_def prim_defs filter_own_ranges hwpt_flag_idem Let_def
          fun_upd_same_eq
          split: if_splits)
  qed
qed

lemma reserve_onwards_ok:
  assumes run: "do_attach_reserve_onwards env idev hwpt flags s = (rc, s')" and rc: "rc = 0"
  shows "s' = s\<lparr>idevs := (idevs s)(idev := (idevs s idev)\<lparr>idev_hwpt := Some hwpt\<rparr>),
              hwpts := (hwpts s)(hwpt := (hwpts s hwpt)\<lparr>hwpt_devices := idev # hwpt_devices (hwpts s hwpt),
                   hwpt_msi_cookie := hwpt_msi_cookie (hwpts s' hwpt)\<rparr>),
              ioass := (ioass s)(hwpt_ioas (hwpts s hwpt) := (ioass s (hwpt_ioas (hwpts s hwpt)))
                 \<lparr>iopt_domains := iopt_domains (ioass s' (hwpt_ioas (hwpts s hwpt))),
                  iopt_reserved := iopt_reserved (ioass s' (hwpt_ioas (hwpts s hwpt)))\<rparr>),
              obj_users := (obj_users s)(hwpt := obj_users s hwpt + 1),
              group_domains := group_domains s',
              msi_cookie_calls := msi_cookie_calls s', warnings := warnings s'\<rparr>"
proof -
  obtain rc2 sw ranges where rr: "resv_regions_result env (idev_dev (idevs s idev)) (idev_group (idevs s idev)) = (rc2, sw, ranges)"
    by (metis prod_cases3)
  define s2 where "s2 = upd_ioas (hwpt_ioas (hwpts s hwpt)) (\<lambda>a. a\<lparr>iopt_reserved :=
             iopt_reserved a @ map (\<lambda>r. (idev_dev (idevs s idev), fst r, snd r)) ranges\<rparr>) s"
  have r2: "iopt_table_enforce_group_resv_regions env (hwpt_ioas (hwpts s hwpt))
             (idev_dev (idevs s idev)) (idev_group (idevs s idev)) s = (rc2, sw, s2)"
    by (simp add: iopt_table_enforce_group_resv_regions_def rr s2_def)
  have rc2: "rc2 = 0"
    using run rc r2 by (auto simp: do_attach_reserve_onwards_def out_iova_def split: if_splits)
  obtain rc3 s3 where r3: "iommufd_device_setup_msi env idev hwpt sw flags s2 = (rc3, s3)"
    by (metis surj_pair)
  obtain m c w where s3: "s3 = s2\<lparr>hwpts := (hwpts s2)(hwpt := (hwpts s2 hwpt)\<lparr>hwpt_msi_cookie := m\<rparr>),
                     msi_cookie_calls := c, warnings := w\<rparr>"
    using r3 by (rule setup_msi_shapeE)
  show ?thesis
    using run rc r2 r3 rc2
    unfolding do_attach_reserve_onwards_def
    by (auto simp: s3 s2_def out_iova_def out_detach_def iopt_remove_reserved_iova_def
          iommu_attach_group_def iommu_detach_group_def iopt_table_add_domain_def
          iommufd_hw_pagetable_has_group_def prim_defs filter_own_ranges hwpt_flag_idem Let_def
          fun_upd_same_eq
        split: if_splits)
qed


lemma do_attach_fail:
  assumes run: "iommufd_device_do_attach env idev hwpt flags s = (rc, s')" and rc: "rc \<noteq> 0"
  shows "s' = s\<lparr>hwpts := (hwpts s)(hwpt := (hwpts s hwpt)
                 \<lparr>hwpt_enforce_cache_coherency := hwpt_enforce_cache_coherency (hwpts s' hwpt),
                  hwpt_msi_cookie := hwpt_msi_cookie (hwpts s' hwpt)\<rparr>),
              ioass := (if idev_enforce_cache_coherency (idevs s idev) \<and>
                           \<not> hwpt_enforce_cache_coherency (hwpts s' hwpt)
                        then ioass s
                        else (ioass s)(hwpt_ioas (hwpts s hwpt) := (ioass s (hwpt_ioas (hwpts s hwpt)))
                               \<lparr>iopt_reserved := filter (\<lambda>r. fst r \<noteq> idev_dev (idevs s idev))
                                  (iopt_reserved (ioass s (hwpt_ioas (hwpts s hwpt))))\<rparr>)),
              msi_cookie_calls := msi_cookie_calls s', warnings := warnings s'\<rparr>"
proof (cases "idev_enforce_cache_coherency (idevs s idev) \<and>
         \<not> hwpt_enforce_cache_coherency (hwpts s hwpt)")
  case False
  with run have r: "do_attach_reserve_onwards env idev hwpt flags s = (rc, s')"
    by (simp add: iommufd_device_do_attach_def)
  note eq = reserve_onwards_fail[OF r rc]
  have e: "hwpt_enforce_cache_coherency (hwpts s' hwpt) = hwpt_enforce_cache_coherency (hwpts s hwpt)"
    by (subst eq) simp
  show ?thesis
    using False by (subst eq) (auto simp: e fun_upd_same_eq)
next
  case True
  show ?thesis
  proof (cases "domain_enforce_cache_coherency env (hwpt_domain (hwpts s hwpt)) = Some True")
    case ok: True
    let ?s1 = "upd_hwpt hwpt (\<lambda>h. h\<lparr>hwpt_enforce_cache_coherency := True\<rparr>) s"
    from run True ok have r: "do_attach_reserve_onwards env idev hwpt flags ?s1 = (rc, s')"
      by (simp add: iommufd_device_do_attach_def)
    note eq = reserve_onwards_fail[OF r rc]
    have e: "hwpt_enforce_cache_coherency (hwpts s' hwpt)"
      by (subst eq) (simp add: upd_hwpt_def)
    show ?thesis
      using True by (subst eq) (simp add: e fun_upd_same_eq upd_hwpt_def)
  next
    case bad: False
    with run True have s': "s' = WARN_ON (hwpt_devices (hwpts s hwpt) = []) s"
      by (auto simp: iommufd_device_do_attach_def prim_defs hwpt_flag_idem split: option.splits if_splits)
    show ?thesis
      using True by (simp add: s' WARN_ON_def hwpt_flag_idem)
  qed
qed

lemma do_attach_ok:
  assumes run: "iommufd_device_do_attach env idev hwpt flags s = (rc, s')" and rc: "rc = 0"
  shows "s' = s\<lparr>idevs := (idevs s)(idev := (idevs s idev)\<lparr>idev_hwpt := Some hwpt\<rparr>),
              hwpts := (hwpts s)(hwpt := (hwpts s hwpt)\<lparr>hwpt_devices := idev # hwpt_devices (hwpts s hwpt),
                   hwpt_enforce_cache_coherency := hwpt_enforce_cache_coherency (hwpts s' hwpt),
                   hwpt_msi_cookie := hwpt_msi_cookie (hwpts s' hwpt)\<rparr>),
              ioass := (ioass s)(hwpt_ioas (hwpts s hwpt) := (ioass s (hwpt_ioas (hwpts s hwpt)))
                 \<lparr>iopt_domains := iopt_domains (ioass s' (hwpt_ioas (hwpts s hwpt))),
                  iopt_reserved := iopt_reserved (ioass s' (hwpt_ioas (hwpts s hwpt)))\<rparr>),
              obj_users := (obj_users s)(hwpt := obj_users s hwpt + 1),
              group_domains := group_domains s',
              msi_cookie_calls := msi_cookie_calls s', warnings := warnings s'\<rparr>"
proof (cases "idev_enforce_cache_coherency (idevs s idev) \<and>
         \<not> hwpt_enforce_cache_coherency (hwpts s hwpt)")
  case False
  with run have r: "do_attach_reserve_onwards env idev hwpt flags s = (rc, s')"
    by (simp add: iommufd_device_do_attach_def)
  note eq = reserve_onwards_ok[OF r rc]
  have e: "hwpt_enforce_cache_coherency (hwpts s' hwpt) = hwpt_enforce_cache_coherency (hwpts s hwpt)"
    by (subst eq) simp
  show ?thesis
    by (subst eq) (simp add: e fun_upd_same_eq)
next
  case True
  have ok: "domain_enforce_cache_coherency env (hwpt_domain (hwpts s hwpt)) = Some True"
    using run rc True
    by (auto simp: iommufd_device_do_attach_def EINVAL_def split: option.splits if_splits)
  let ?s1 = "upd_hwpt hwpt (\<lambda>h. h\<lparr>hwpt_enforce_cache_coherency := True\<rparr>) s"
  from run True ok have r: "do_attach_reserve_onwards env idev hwpt flags ?s1 = (rc, s')"
    by (simp add: iommufd_device_do_attach_def)
  note eq = reserve_onwards_ok[OF r rc]
  have e: "hwpt_enforce_cache_coherency (hwpts s' hwpt)"
    by (subst eq) (simp add: upd_hwpt_def)
  show ?thesis
    by (subst eq) (simp add: e fun_upd_same_eq upd_hwpt_def)
qed

section \<open>PASID attach and replace\<close>










section \<open>The shared attach algorithm: failures\<close>

lemmas fixture_defs = two_hwpt_state_def init_state_def quiet_env_def zero_device_def
  zero_hw_pagetable_def zero_ioas_def

lemmas attach_defs = iommufd_device_do_attach_def do_attach_reserve_onwards_def
  iopt_table_enforce_group_resv_regions_def iopt_remove_reserved_iova_def
  iommu_get_msi_cookie_def iommu_attach_group_def iommu_detach_group_def
  iopt_table_add_domain_def iopt_table_remove_domain_def iommufd_device_setup_msi_def
  out_iova_def out_detach_def iommufd_hw_pagetable_has_group_def

text \<open>
  Claim C1, as the code has it. When \<open>iommufd_device_do_attach\<close> fails, the bindings
  (with their current-HWPT pointers), every reference count, the group attachments, the
  device list of the HWPT, the member lists and the translation tables are as before the
  call; unless the failure is the coherency upgrade itself, which precedes the
  reservation, no reserved range owned by the device is left in the address space. The
  post-state is the pre-state except for (1) the coherency and MSI-cookie flags of the
  HWPT, which keep an upgrade or an installation that succeeded before the failing
  step, together with the record of cookie installations and of warnings, and (2) the
  reserved ranges of the device, which are all released, those it held before the call
  included.
\<close>

theorem do_attach_failure_rollback:
  assumes run: "iommufd_device_do_attach env idev hwpt flags s = (rc, s')" and rc: "rc \<noteq> 0"
  shows "idevs s' = idevs s \<and>
         obj_users s' = obj_users s \<and>
         group_domains s' = group_domains s \<and>
         hwpt_devices (hwpts s' hwpt) = hwpt_devices (hwpts s hwpt) \<and>
         (\<forall>a. iopt_domains (ioass s' a) = iopt_domains (ioass s a) \<and>
              ioas_hwpt_list (ioass s' a) = ioas_hwpt_list (ioass s a)) \<and>
         (\<not> (idev_enforce_cache_coherency (idevs s idev) \<and>
             \<not> hwpt_enforce_cache_coherency (hwpts s' hwpt)) \<longrightarrow>
            (\<forall>r \<in> set (iopt_reserved (ioass s' (hwpt_ioas (hwpts s hwpt)))).
               fst r \<noteq> idev_dev (idevs s idev))) \<and>
         s' = s\<lparr>hwpts := (hwpts s)(hwpt := (hwpts s hwpt)
                 \<lparr>hwpt_enforce_cache_coherency := hwpt_enforce_cache_coherency (hwpts s' hwpt),
                  hwpt_msi_cookie := hwpt_msi_cookie (hwpts s' hwpt)\<rparr>),
              ioass := (if idev_enforce_cache_coherency (idevs s idev) \<and>
                           \<not> hwpt_enforce_cache_coherency (hwpts s' hwpt)
                        then ioass s
                        else (ioass s)(hwpt_ioas (hwpts s hwpt) := (ioass s (hwpt_ioas (hwpts s hwpt)))
                               \<lparr>iopt_reserved := filter (\<lambda>r. fst r \<noteq> idev_dev (idevs s idev))
                                  (iopt_reserved (ioass s (hwpt_ioas (hwpts s hwpt))))\<rparr>)),
              msi_cookie_calls := msi_cookie_calls s', warnings := warnings s'\<rparr>"
proof -
  note eq = do_attach_fail[OF run rc]
  have 1: "idevs s' = idevs s" by (subst eq) simp
  have 2: "obj_users s' = obj_users s" by (subst eq) simp
  have 3: "group_domains s' = group_domains s" by (subst eq) simp
  have 4: "hwpt_devices (hwpts s' hwpt) = hwpt_devices (hwpts s hwpt)" by (subst eq) simp
  have 5: "iopt_domains (ioass s' a) = iopt_domains (ioass s a) \<and>
              ioas_hwpt_list (ioass s' a) = ioas_hwpt_list (ioass s a)" for a
    by (subst eq, subst (3) eq) simp
  have 6: "\<not> (idev_enforce_cache_coherency (idevs s idev) \<and>
             \<not> hwpt_enforce_cache_coherency (hwpts s' hwpt)) \<Longrightarrow>
            r \<in> set (iopt_reserved (ioass s' (hwpt_ioas (hwpts s hwpt)))) \<Longrightarrow>
               fst r \<noteq> idev_dev (idevs s idev)" for r
  proof -
    assume c: "\<not> (idev_enforce_cache_coherency (idevs s idev) \<and>
             \<not> hwpt_enforce_cache_coherency (hwpts s' hwpt))"
      and r: "r \<in> set (iopt_reserved (ioass s' (hwpt_ioas (hwpts s hwpt))))"
    have "ioass s' = (ioass s)(hwpt_ioas (hwpts s hwpt) := (ioass s (hwpt_ioas (hwpts s hwpt)))
                               \<lparr>iopt_reserved := filter (\<lambda>r. fst r \<noteq> idev_dev (idevs s idev))
                                  (iopt_reserved (ioass s (hwpt_ioas (hwpts s hwpt))))\<rparr>)"
      using c by (subst eq) auto
    with r show ?thesis by simp
  qed
  show ?thesis using 1 2 3 4 5 6 eq by blast
qed


text \<open>Device 1 needs enforced coherency, HWPT 2 is upgraded for it, and the reservation
  of the regions then fails with \<open>-ENOMEM\<close>.\<close>

theorem do_attach_failure_rollback_witness:
  "fst (iommufd_device_do_attach (quiet_env\<lparr>resv_regions_result := resv_regions_nomem\<rparr>)
          1 2 0 two_hwpt_state) \<noteq> 0 \<and>
   idevs (snd (iommufd_device_do_attach (quiet_env\<lparr>resv_regions_result := resv_regions_nomem\<rparr>)
          1 2 0 two_hwpt_state)) = idevs two_hwpt_state \<and>
   obj_users (snd (iommufd_device_do_attach (quiet_env\<lparr>resv_regions_result := resv_regions_nomem\<rparr>)
          1 2 0 two_hwpt_state)) = obj_users two_hwpt_state \<and>
   group_domains (snd (iommufd_device_do_attach (quiet_env\<lparr>resv_regions_result := resv_regions_nomem\<rparr>)
          1 2 0 two_hwpt_state)) = group_domains two_hwpt_state"
proof -
  let ?R = "iommufd_device_do_attach (quiet_env\<lparr>resv_regions_result := resv_regions_nomem\<rparr>)
          1 2 0 two_hwpt_state"
  have rc: "fst ?R \<noteq> 0"
    by (simp add: attach_defs fixture_defs resv_regions_nomem_def prim_defs ENOMEM_def)
  have "?R = (fst ?R, snd ?R)" by simp
  from do_attach_failure_rollback [OF this rc] rc show ?thesis by blast
qed

text \<open>In that run the post-state is not the pre-state, as claim C1 states it: HWPT 2
  stays upgraded.\<close>

theorem do_attach_failure_keeps_upgrade_counterexample:
  "fst (iommufd_device_do_attach (quiet_env\<lparr>resv_regions_result := resv_regions_nomem\<rparr>)
          1 2 0 two_hwpt_state) \<noteq> 0 \<and>
   snd (iommufd_device_do_attach (quiet_env\<lparr>resv_regions_result := resv_regions_nomem\<rparr>)
          1 2 0 two_hwpt_state) \<noteq> two_hwpt_state"
proof -
  let ?R = "iommufd_device_do_attach (quiet_env\<lparr>resv_regions_result := resv_regions_nomem\<rparr>)
          1 2 0 two_hwpt_state"
  have rc: "fst ?R \<noteq> 0"
    by (simp add: attach_defs fixture_defs resv_regions_nomem_def prim_defs ENOMEM_def)
  have a: "hwpt_enforce_cache_coherency (hwpts (snd ?R) 2)"
    by (simp add: attach_defs fixture_defs resv_regions_nomem_def prim_defs ENOMEM_def)
  have b: "\<not> hwpt_enforce_cache_coherency (hwpts two_hwpt_state 2)"
    by (simp add: fixture_defs)
  from a b have "snd ?R \<noteq> two_hwpt_state" by auto
  with rc show ?thesis by simp
qed

text \<open>
  Claim C6, as the code has it. When the device needs enforced coherency, the HWPT does
  not enforce it and the domain cannot be upgraded (it has no such op, or the op
  refuses), \<open>iommufd_device_do_attach\<close> returns \<open>-EINVAL\<close> whether the HWPT has member
  devices or not; with no member device it also raises a warning, and that is the only
  change of the state. A direct attach to such an HWPT returns \<open>-EINVAL\<close> and leaves
  the binding unattached, and the search of the automatic selection goes on to the next
  member in both cases.
\<close>

theorem do_attach_upgrade_failure:
  assumes need: "idev_enforce_cache_coherency (idevs s idev)"
    and unset: "\<not> hwpt_enforce_cache_coherency (hwpts s hwpt)"
    and refused: "domain_enforce_cache_coherency env (hwpt_domain (hwpts s hwpt)) \<noteq> Some True"
  shows "iommufd_device_do_attach env idev hwpt flags s =
           (- EINVAL, WARN_ON (hwpt_devices (hwpts s hwpt) = []) s) \<and>
         (xa_objects s hwpt = XA_OBJECT \<and> obj_users s hwpt \<noteq> 0 \<and>
          obj_type s hwpt = IOMMUFD_OBJ_HW_PAGETABLE \<longrightarrow>
            iommufd_device_attach env idev hwpt flags s =
              (- EINVAL, hwpt, WARN_ON (hwpt_devices (hwpts s hwpt) = []) s)) \<and>
         (hwpt_auto_domain (hwpts s hwpt) \<and> obj_users s hwpt \<noteq> 0 \<longrightarrow>
            auto_get_domain_loop env idev flags (hwpt # rest) s =
              auto_get_domain_loop env idev flags rest
                (WARN_ON (hwpt_devices (hwpts s hwpt) = []) s))"
proof -
  have da: "iommufd_device_do_attach env idev hwpt flags s' =
           (- EINVAL, WARN_ON (hwpt_devices (hwpts s hwpt) = []) s')"
    if "idevs s' = idevs s" "hwpts s' = hwpts s" for s'
    using need unset refused that
    by (auto simp: iommufd_device_do_attach_def prim_defs hwpt_flag_idem split: option.splits)
  have 1: "iommufd_device_do_attach env idev hwpt flags s =
           (- EINVAL, WARN_ON (hwpt_devices (hwpts s hwpt) = []) s)"
    by (rule da) simp_all
  have 2: "iommufd_device_attach env idev hwpt flags s =
              (- EINVAL, hwpt, WARN_ON (hwpt_devices (hwpts s hwpt) = []) s)"
    if "xa_objects s hwpt = XA_OBJECT" "obj_users s hwpt \<noteq> 0"
       "obj_type s hwpt = IOMMUFD_OBJ_HW_PAGETABLE"
    using that da[of "refcount_inc hwpt s"]
    by (simp add: iommufd_device_attach_def iommufd_get_object_def iommufd_put_object_def
          prim_defs EINVAL_def)
  have 3: "auto_get_domain_loop env idev flags (hwpt # rest) s =
              auto_get_domain_loop env idev flags rest
                (WARN_ON (hwpt_devices (hwpts s hwpt) = []) s)"
    if "hwpt_auto_domain (hwpts s hwpt)" "obj_users s hwpt \<noteq> 0"
    using that da[of "refcount_inc hwpt s"]
    by (simp add: refcount_inc_not_zero_def prim_defs EINVAL_def)
  from 1 2 3 show ?thesis by blast
qed

text \<open>Device 1 is attached directly to HWPT 3, which holds device 9 and cannot be
  upgraded.\<close>

theorem do_attach_upgrade_failure_witness:
  "iommufd_device_attach (quiet_env\<lparr>domain_enforce_cache_coherency := refuse_upgrade\<rparr>)
      1 3 0 two_hwpt_state = (- EINVAL, 3, two_hwpt_state)"
  using do_attach_upgrade_failure
          [of two_hwpt_state 1 3 "quiet_env\<lparr>domain_enforce_cache_coherency := refuse_upgrade\<rparr>" 0 "[]"]
  by (simp add: fixture_defs refuse_upgrade_def WARN_ON_def)

text \<open>Claim C6 as stated has two errors. HWPT 2 has no device, HWPT 3 has one, and the
  attach of device 1 returns the same \<open>-EINVAL\<close> for both.\<close>

theorem do_attach_upgrade_failure_same_errno_counterexample:
  "fst (iommufd_device_do_attach (quiet_env\<lparr>domain_enforce_cache_coherency := refuse_upgrade\<rparr>)
          1 2 0 two_hwpt_state) = - EINVAL \<and>
   fst (iommufd_device_do_attach (quiet_env\<lparr>domain_enforce_cache_coherency := refuse_upgrade\<rparr>)
          1 3 0 two_hwpt_state) = - EINVAL \<and>
   hwpt_devices (hwpts two_hwpt_state 2) = [] \<and> hwpt_devices (hwpts two_hwpt_state 3) = [9]"
  by (simp add: iommufd_device_do_attach_def fixture_defs refuse_upgrade_def prim_defs)

section \<open>The MSI window\<close>

lemma setup_msi_cases:
  assumes "iommufd_device_setup_msi env idev hwpt sw flags s = (rc, s')"
  shows "s' = s \<or> (rc \<noteq> 0 \<and> s' = s\<lparr>warnings := Suc (warnings s)\<rparr>) \<or>
         (\<not> hwpt_msi_cookie (hwpts s hwpt) \<and> rc \<noteq> 0 \<and>
            s' = s\<lparr>msi_cookie_calls := msi_cookie_calls s @ [hwpt_domain (hwpts s hwpt)]\<rparr>) \<or>
         (\<not> hwpt_msi_cookie (hwpts s hwpt) \<and> rc = 0 \<and>
            s' = s\<lparr>hwpts := (hwpts s)(hwpt := (hwpts s hwpt)\<lparr>hwpt_msi_cookie := True\<rparr>),
                   msi_cookie_calls := msi_cookie_calls s @ [hwpt_domain (hwpts s hwpt)]\<rparr>)"
  using assms
  unfolding iommufd_device_setup_msi_def iommu_get_msi_cookie_def prim_defs
  by (auto simp: EPERM_def split: if_splits prod.splits)

lemma reserve_onwards_calls:
  assumes run: "do_attach_reserve_onwards env idev hwpt flags s = (rc, s')"
  shows "(msi_cookie_calls s' = msi_cookie_calls s \<and>
          hwpt_msi_cookie (hwpts s' hwpt) = hwpt_msi_cookie (hwpts s hwpt)) \<or>
         (\<not> hwpt_msi_cookie (hwpts s hwpt) \<and>
          msi_cookie_calls s' = msi_cookie_calls s @ [hwpt_domain (hwpts s hwpt)] \<and>
          (rc = 0 \<longrightarrow> hwpt_msi_cookie (hwpts s' hwpt)))"
proof -
  obtain rc2 sw ranges where rr: "resv_regions_result env (idev_dev (idevs s idev)) (idev_group (idevs s idev)) = (rc2, sw, ranges)"
    by (metis prod_cases3)
  define s2 where "s2 = upd_ioas (hwpt_ioas (hwpts s hwpt)) (\<lambda>a. a\<lparr>iopt_reserved :=
             iopt_reserved a @ map (\<lambda>r. (idev_dev (idevs s idev), fst r, snd r)) ranges\<rparr>) s"
  have r2: "iopt_table_enforce_group_resv_regions env (hwpt_ioas (hwpts s hwpt))
             (idev_dev (idevs s idev)) (idev_group (idevs s idev)) s = (rc2, sw, s2)"
    by (simp add: iopt_table_enforce_group_resv_regions_def rr s2_def)
  show ?thesis
  proof (cases "rc2 = 0")
    case False
    with run r2 have "s' = snd (out_iova idev hwpt rc2 s2)"
      by (simp add: do_attach_reserve_onwards_def)
    then show ?thesis
      by (simp add: out_iova_def iopt_remove_reserved_iova_def s2_def prim_defs)
  next
    case True
    obtain rc3 s3 where r3: "iommufd_device_setup_msi env idev hwpt sw flags s2 = (rc3, s3)"
      by (metis surj_pair)
    from setup_msi_cases[OF r3] show ?thesis
      using run r2 r3 True
      unfolding do_attach_reserve_onwards_def
      by (elim disjE conjE)
         (auto simp: s2_def out_iova_def out_detach_def iopt_remove_reserved_iova_def
            iommu_attach_group_def iommu_detach_group_def iopt_table_add_domain_def
            iommufd_hw_pagetable_has_group_def prim_defs Let_def
          split: if_splits)
  qed
qed

lemma do_attach_calls:
  assumes run: "iommufd_device_do_attach env idev hwpt flags s = (rc, s')"
  shows "(msi_cookie_calls s' = msi_cookie_calls s \<and>
          hwpt_msi_cookie (hwpts s' hwpt) = hwpt_msi_cookie (hwpts s hwpt)) \<or>
         (\<not> hwpt_msi_cookie (hwpts s hwpt) \<and>
          msi_cookie_calls s' = msi_cookie_calls s @ [hwpt_domain (hwpts s hwpt)] \<and>
          (rc = 0 \<longrightarrow> hwpt_msi_cookie (hwpts s' hwpt)))"
proof (cases "idev_enforce_cache_coherency (idevs s idev) \<and>
         \<not> hwpt_enforce_cache_coherency (hwpts s hwpt)")
  case False
  with run have "do_attach_reserve_onwards env idev hwpt flags s = (rc, s')"
    by (simp add: iommufd_device_do_attach_def)
  from reserve_onwards_calls[OF this] show ?thesis .
next
  case True
  show ?thesis
  proof (cases "domain_enforce_cache_coherency env (hwpt_domain (hwpts s hwpt)) = Some True")
    case ok: True
    let ?s1 = "upd_hwpt hwpt (\<lambda>h. h\<lparr>hwpt_enforce_cache_coherency := True\<rparr>) s"
    from run True ok have "do_attach_reserve_onwards env idev hwpt flags ?s1 = (rc, s')"
      by (simp add: iommufd_device_do_attach_def)
    from reserve_onwards_calls[OF this] show ?thesis
      by (simp add: upd_hwpt_def)
  next
    case False
    with run True have "s' = WARN_ON (hwpt_devices (hwpts s hwpt) = []) s"
      by (auto simp: iommufd_device_do_attach_def prim_defs hwpt_flag_idem split: option.splits if_splits)
    then show ?thesis by (simp add: WARN_ON_def)
  qed
qed

lemma do_attach_seq_calls:
  "do_attach_seq steps hwpt s = (rcs, s') \<Longrightarrow> \<forall>rc \<in> set rcs. rc = 0 \<Longrightarrow>
     (hwpt_msi_cookie (hwpts s hwpt) \<longrightarrow> msi_cookie_calls s' = msi_cookie_calls s) \<and>
     (msi_cookie_calls s' = msi_cookie_calls s \<or>
      msi_cookie_calls s' = msi_cookie_calls s @ [hwpt_domain (hwpts s hwpt)])"
proof (induction steps arbitrary: s rcs)
  case Nil
  then show ?case by simp
next
  case (Cons step steps)
  obtain env idev flags where step: "step = (env, idev, flags)" by (metis prod_cases3)
  obtain rc s1 where r1: "iommufd_device_do_attach env idev hwpt flags s = (rc, s1)"
    by (metis surj_pair)
  obtain rcs1 where r2: "do_attach_seq steps hwpt s1 = (rcs1, s')" and rcs: "rcs = rc # rcs1"
    using Cons.prems(1) step r1 by (auto split: prod.splits)
  have rc0: "rc = 0" and all0: "\<forall>rc \<in> set rcs1. rc = 0"
    using Cons.prems(2) rcs by auto
  have dom: "hwpt_domain (hwpts s1 hwpt) = hwpt_domain (hwpts s hwpt)"
    by (subst do_attach_ok[OF r1 rc0]) simp
  note ih = Cons.IH[OF r2 all0]
  from do_attach_calls[OF r1] rc0 ih dom show ?case
    by auto
qed

lemma reserve_onwards_unsafe:
  assumes "\<not> cap_intr_remap env (idev_dev (idevs s idev))" "\<not> irq_domain_check_msi_remap env"
    "flags AND flag_allow_unsafe_interrupt env = 0"
  shows "fst (do_attach_reserve_onwards env idev hwpt flags s) \<noteq> 0 \<and>
         (fst (resv_regions_result env (idev_dev (idevs s idev)) (idev_group (idevs s idev))) = 0 \<longrightarrow>
            fst (do_attach_reserve_onwards env idev hwpt flags s) = - EPERM)"
  using assms
  by (auto simp: do_attach_reserve_onwards_def iopt_table_enforce_group_resv_regions_def
        iommufd_device_setup_msi_def out_iova_def prim_defs EPERM_def split: prod.splits)

text \<open>
  Claim C8. A sequence of attach calls to one HWPT that all succeed asks for the MSI
  cookie of its domain at most once: the log of installations is unchanged or has grown
  by one entry, and it is unchanged when the HWPT carried the installed flag already.
  On a platform with neither interrupt remapping nor a software MSI window,
  \<open>iommufd_device_setup_msi\<close> returns \<open>-EPERM\<close> unless the flags carry the opt-in bit, in
  which case it returns \<open>0\<close>; without the bit \<open>iommufd_device_do_attach\<close> never succeeds,
  and it returns \<open>-EPERM\<close> whenever the steps before the MSI step have succeeded.
\<close>

theorem msi_window_installed_once:
  "(\<forall>rcs s'. do_attach_seq steps hwpt s = (rcs, s') \<and> (\<forall>rc \<in> set rcs. rc = 0) \<longrightarrow>
      (hwpt_msi_cookie (hwpts s hwpt) \<longrightarrow> msi_cookie_calls s' = msi_cookie_calls s) \<and>
      (msi_cookie_calls s' = msi_cookie_calls s \<or>
       msi_cookie_calls s' = msi_cookie_calls s @ [hwpt_domain (hwpts s hwpt)])) \<and>
   (\<not> cap_intr_remap env (idev_dev (idevs s idev)) \<and> \<not> irq_domain_check_msi_remap env \<longrightarrow>
      iommufd_device_setup_msi env idev hwpt sw_msi_start flags s =
        (if flags AND flag_allow_unsafe_interrupt env = 0 then (- EPERM, s) else (0, s)) \<and>
      (flags AND flag_allow_unsafe_interrupt env = 0 \<longrightarrow>
         fst (iommufd_device_do_attach env idev hwpt flags s) \<noteq> 0 \<and>
         ((idev_enforce_cache_coherency (idevs s idev) \<longrightarrow>
             hwpt_enforce_cache_coherency (hwpts s hwpt) \<or>
             domain_enforce_cache_coherency env (hwpt_domain (hwpts s hwpt)) = Some True) \<and>
          fst (resv_regions_result env (idev_dev (idevs s idev)) (idev_group (idevs s idev))) = 0 \<longrightarrow>
            fst (iommufd_device_do_attach env idev hwpt flags s) = - EPERM)))"
proof -
  have seq: "(hwpt_msi_cookie (hwpts s hwpt) \<longrightarrow> msi_cookie_calls s' = msi_cookie_calls s) \<and>
      (msi_cookie_calls s' = msi_cookie_calls s \<or>
       msi_cookie_calls s' = msi_cookie_calls s @ [hwpt_domain (hwpts s hwpt)])"
    if "do_attach_seq steps hwpt s = (rcs, s')" "\<forall>rc \<in> set rcs. rc = 0" for rcs s'
    using do_attach_seq_calls[OF that] .
  have msi: "iommufd_device_setup_msi env idev hwpt sw_msi_start flags s =
        (if flags AND flag_allow_unsafe_interrupt env = 0 then (- EPERM, s) else (0, s))"
    if "\<not> cap_intr_remap env (idev_dev (idevs s idev))" "\<not> irq_domain_check_msi_remap env"
    using that by (simp add: iommufd_device_setup_msi_def)
  have att: "fst (iommufd_device_do_attach env idev hwpt flags s) \<noteq> 0 \<and>
         ((idev_enforce_cache_coherency (idevs s idev) \<longrightarrow>
             hwpt_enforce_cache_coherency (hwpts s hwpt) \<or>
             domain_enforce_cache_coherency env (hwpt_domain (hwpts s hwpt)) = Some True) \<and>
          fst (resv_regions_result env (idev_dev (idevs s idev)) (idev_group (idevs s idev))) = 0 \<longrightarrow>
            fst (iommufd_device_do_attach env idev hwpt flags s) = - EPERM)"
    if c: "\<not> cap_intr_remap env (idev_dev (idevs s idev))" "\<not> irq_domain_check_msi_remap env"
      "flags AND flag_allow_unsafe_interrupt env = 0"
    using reserve_onwards_unsafe[of env s idev flags hwpt, OF c]
      reserve_onwards_unsafe[of env "upd_hwpt hwpt (\<lambda>h. h\<lparr>hwpt_enforce_cache_coherency := True\<rparr>) s"
        idev flags hwpt] c
    by (auto simp: iommufd_device_do_attach_def upd_hwpt_def EINVAL_def split: option.splits)
  from seq msi att show ?thesis by blast
qed

text \<open>Devices 1 and 4 are attached in turn to the empty HWPT 2 on a platform with a
  software MSI window: one installation, for domain 20. On a platform without
  isolation the attach of device 1 without the opt-in bit returns \<open>-EPERM\<close>.\<close>

theorem msi_window_installed_once_witness:
  "msi_cookie_calls (snd (do_attach_seq [(sw_msi_env, 1, 0), (sw_msi_env, 4, 0)] 2 two_hwpt_state))
     = [20] \<and>
   fst (iommufd_device_do_attach unsafe_env 1 2 0 two_hwpt_state) = - EPERM"
proof -
  let ?steps = "[(sw_msi_env, 1, 0), (sw_msi_env, 4, 0)]"
  let ?R = "do_attach_seq ?steps 2 two_hwpt_state"
  note T = msi_window_installed_once [of ?steps 2 two_hwpt_state unsafe_env 1 0 0]
  have run: "fst ?R = [0, 0]"
    by (simp add: attach_defs fixture_defs sw_msi_env_def resv_regions_sw_msi_def
          no_intr_remap_def prim_defs ENODEV_def)
  have calls: "msi_cookie_calls (snd ?R) \<noteq> []"
    by (simp add: attach_defs fixture_defs sw_msi_env_def resv_regions_sw_msi_def
          no_intr_remap_def prim_defs ENODEV_def)
  have pre: "msi_cookie_calls two_hwpt_state = []" "hwpt_domain (hwpts two_hwpt_state 2) = 20"
      "idev_enforce_cache_coherency (idevs two_hwpt_state 1)"
      "idev_dev (idevs two_hwpt_state 1) = 101" "idev_group (idevs two_hwpt_state 1) = 201"
    by (simp_all add: fixture_defs)
  have env: "\<not> cap_intr_remap unsafe_env 101" "\<not> irq_domain_check_msi_remap unsafe_env"
      "(0 :: 32 word) AND flag_allow_unsafe_interrupt unsafe_env = 0"
      "domain_enforce_cache_coherency unsafe_env 20 = Some True"
      "fst (resv_regions_result unsafe_env 101 201) = 0"
    by (simp_all add: unsafe_env_def quiet_env_def no_intr_remap_def)
  have "msi_cookie_calls (snd ?R) = msi_cookie_calls two_hwpt_state \<or>
        msi_cookie_calls (snd ?R) = msi_cookie_calls two_hwpt_state @ [hwpt_domain (hwpts two_hwpt_state 2)]"
    using T [THEN conjunct1, rule_format, of "fst ?R" "snd ?R"] run by simp
  with calls pre have a: "msi_cookie_calls (snd ?R) = [20]" by simp
  have b: "fst (iommufd_device_do_attach unsafe_env 1 2 0 two_hwpt_state) = - EPERM"
    using T [THEN conjunct2] pre env by simp
  from a b show ?thesis by simp
qed

section \<open>Bind\<close>

lemmas bind_defs = iommufd_device_bind_def iommu_group_get_def iommu_group_put_def
  iommu_device_claim_dma_owner_def iommu_device_release_dma_owner_def iommufd_object_alloc_def
  iommufd_object_finalize_def iommufd_ctx_get_def

lemma bind_failure_unchanged:
  assumes "iommufd_device_bind env already_owned ictx dev s = (Inl rc, s')"
    and "already_owned \<noteq> 0"
  shows "s' = s"
  using assms
  by (auto simp: bind_defs prim_defs fun_upd_idem split: if_splits option.splits prod.splits)

text \<open>
  Claim C9. \<open>iommufd_device_bind\<close> fails with \<open>-EINVAL\<close> when the device lacks the
  cache-coherency capability, before anything else is looked at or touched. For a
  capable device in a group it fails with the error of the ownership layer when another
  owner holds the device, and with the error of the object allocation when that fails.
  Every failure leaves the state as it was: no ownership claim and no group reference
  is kept. On success the result is the new device object; the device is owned by the
  context, the object records the context, the device, the group and the coherency
  capability, holds the group reference and the caller's use-reference, and is
  finalized.
\<close>

theorem bind_outcomes:
  "(\<not> cap_cache_coherency env dev \<longrightarrow>
      iommufd_device_bind env already_owned ictx dev s = (Inl (- EINVAL), s)) \<and>
   (cap_cache_coherency env dev \<and> iommu_group_of env dev = Some grp \<longrightarrow>
      (\<forall>other extra. dma_owner s dev = Some (other, extra) \<and> other \<noteq> ictx \<and> already_owned \<noteq> 0 \<longrightarrow>
         iommufd_device_bind env already_owned ictx dev s = (Inl already_owned, s)) \<and>
      ((\<forall>other extra. dma_owner s dev = Some (other, extra) \<longrightarrow> other = ictx) \<longrightarrow>
         (object_alloc_rc env \<noteq> 0 \<longrightarrow>
            iommufd_device_bind env already_owned ictx dev s = (Inl (object_alloc_rc env), s)) \<and>
         (object_alloc_rc env = 0 \<longrightarrow>
            (\<exists>s'. iommufd_device_bind env already_owned ictx dev s = (Inr (next_id s), s') \<and>
                  (\<exists>extra. dma_owner s' dev = Some (ictx, extra)) \<and>
                  idevs s' (next_id s) = zero_device\<lparr>idev_ictx := ictx, idev_dev := dev,
                     idev_group := grp,
                     idev_enforce_cache_coherency := cap_enforce_cache_coherency env dev\<rparr> \<and>
                  group_refs s' grp = group_refs s grp + 1 \<and>
                  obj_users s' (next_id s) = 2 \<and>
                  xa_objects s' (next_id s) = XA_OBJECT)))) \<and>
   (already_owned \<noteq> 0 \<longrightarrow>
      (\<forall>rc s'. iommufd_device_bind env already_owned ictx dev s = (Inl rc, s') \<longrightarrow> s' = s))"
proof -
  have 1: "iommufd_device_bind env already_owned ictx dev s = (Inl (- EINVAL), s)"
    if "\<not> cap_cache_coherency env dev"
    using that by (simp add: iommufd_device_bind_def)
  have 2: "iommufd_device_bind env already_owned ictx dev s = (Inl already_owned, s)"
    if "cap_cache_coherency env dev" "iommu_group_of env dev = Some grp"
       "dma_owner s dev = Some (other, extra)" "other \<noteq> ictx" "already_owned \<noteq> 0" for other extra
    using that by (simp add: bind_defs)
  have 3: "iommufd_device_bind env already_owned ictx dev s = (Inl (object_alloc_rc env), s)"
    if "cap_cache_coherency env dev" "iommu_group_of env dev = Some grp"
       "\<forall>other extra. dma_owner s dev = Some (other, extra) \<longrightarrow> other = ictx"
       "object_alloc_rc env \<noteq> 0"
    using that by (auto simp: bind_defs fun_upd_idem split: option.splits)
  have 4: "\<exists>s'. iommufd_device_bind env already_owned ictx dev s = (Inr (next_id s), s') \<and>
                  (\<exists>extra. dma_owner s' dev = Some (ictx, extra)) \<and>
                  idevs s' (next_id s) = zero_device\<lparr>idev_ictx := ictx, idev_dev := dev,
                     idev_group := grp,
                     idev_enforce_cache_coherency := cap_enforce_cache_coherency env dev\<rparr> \<and>
                  group_refs s' grp = group_refs s grp + 1 \<and>
                  obj_users s' (next_id s) = 2 \<and>
                  xa_objects s' (next_id s) = XA_OBJECT"
    if "cap_cache_coherency env dev" "iommu_group_of env dev = Some grp"
       "\<forall>other extra. dma_owner s dev = Some (other, extra) \<longrightarrow> other = ictx"
       "object_alloc_rc env = 0"
    using that by (auto simp: bind_defs prim_defs zero_device_def split: option.splits)
  from 1 2 3 4 bind_failure_unchanged show ?thesis by blast
qed


text \<open>The physical device 104 is bound for context 50: without the capability, while
  context 60 owns it, with no memory for the object, and with nothing in the way.\<close>

theorem bind_outcomes_witness:
  "iommufd_device_bind (quiet_env\<lparr>cap_cache_coherency := no_cache_coherency\<rparr>) (- EBUSY) 50 104
      two_hwpt_state = (Inl (- EINVAL), two_hwpt_state) \<and>
   iommufd_device_bind quiet_env (- EBUSY) 50 104 device_104_owned_by_60
     = (Inl (- EBUSY), device_104_owned_by_60) \<and>
   iommufd_device_bind (quiet_env\<lparr>object_alloc_rc := - ENOMEM\<rparr>) (- EBUSY) 50 104
      two_hwpt_state = (Inl (- ENOMEM), two_hwpt_state) \<and>
   fst (iommufd_device_bind quiet_env (- EBUSY) 50 104 two_hwpt_state) = Inr 11"
  using bind_outcomes [of "quiet_env\<lparr>cap_cache_coherency := no_cache_coherency\<rparr>" 104 "- EBUSY" 50
          two_hwpt_state 104]
    bind_outcomes [of quiet_env 104 "- EBUSY" 50 device_104_owned_by_60 104]
    bind_outcomes [of "quiet_env\<lparr>object_alloc_rc := - ENOMEM\<rparr>" 104 "- EBUSY" 50
          two_hwpt_state 104]
    bind_outcomes [of quiet_env 104 "- EBUSY" 50 two_hwpt_state 104]
  by (auto simp: fixture_defs device_104_owned_by_60_def no_cache_coherency_def EBUSY_def ENOMEM_def)

section \<open>Detach and the member list of the address space\<close>

lemmas registry_defs = iommufd_object_alloc_def iommufd_object_finalize_def
  iommufd_object_abort_and_destroy_def iommufd_object_destroy_user_def iommufd_get_object_def
  iommufd_put_object_def iommufd_hw_pagetable_alloc_def refcount_inc_not_zero_def

lemmas scenario_defs = scenario_a_one_left_def scenario_a_both_attached_def
  scenario_a_first_attached_def ioas_only_state_def

lemma one_left_facts:
  "idev_hwpt (idevs scenario_a_one_left 13) = Some 12"
  "hwpt_auto_domain (hwpts scenario_a_one_left 12)"
  "obj_users scenario_a_one_left 12 = 2"
  "hwpt_devices (hwpts scenario_a_one_left 12) = [13]"
  "xa_objects scenario_a_one_left 12 = XA_OBJECT"
  unfolding scenario_defs
  by (simp_all add: bind_defs registry_defs attach_defs iommufd_device_attach_def
      iommufd_device_auto_get_domain_def iommufd_device_detach_def prim_defs init_state_def quiet_env_def zero_device_def
      zero_hw_pagetable_def zero_ioas_def Let_def)


lemmas detach_defs = iommufd_device_detach_def iommufd_hw_pagetable_has_group_def
  iommu_detach_group_def iopt_remove_reserved_iova_def iopt_table_remove_domain_def
  iommufd_object_destroy_user_def

text \<open>
  Claim C5, as the code and the object registry have it. For a binding attached to an
  HWPT, \<open>iommufd_device_detach\<close> always returns and takes the device off the device
  list of the HWPT. If the list is then empty, the HWPT leaves the member list of its
  address space and its domain leaves the translation table; otherwise both are as
  before. For a manually created HWPT exactly one reference is dropped. For an
  auto-created HWPT the reference of the binding is dropped, and the HWPT is destroyed
  when that was the last reference besides the creating one (a count of 2 before the
  call); while other references remain it stays. The current-HWPT pointer of the
  binding is cleared and the use-reference of the binding dropped.
\<close>

theorem detach_effects:
  assumes att: "idev_hwpt (idevs s idev) = Some hwpt" and ids: "idev \<noteq> hwpt"
  shows "\<exists>s'. iommufd_device_detach idev s = Some s' \<and>
     hwpt_devices (hwpts s' hwpt) = remove1 idev (hwpt_devices (hwpts s hwpt)) \<and>
     (distinct (hwpt_devices (hwpts s hwpt)) \<longrightarrow> idev \<notin> set (hwpt_devices (hwpts s' hwpt))) \<and>
     (hwpt_devices (hwpts s' hwpt) = [] \<longrightarrow>
        ioas_hwpt_list (ioass s' (hwpt_ioas (hwpts s hwpt))) =
          remove1 hwpt (ioas_hwpt_list (ioass s (hwpt_ioas (hwpts s hwpt)))) \<and>
        iopt_domains (ioass s' (hwpt_ioas (hwpts s hwpt))) =
          remove1 (hwpt_domain (hwpts s hwpt)) (iopt_domains (ioass s (hwpt_ioas (hwpts s hwpt))))) \<and>
     (hwpt_devices (hwpts s' hwpt) \<noteq> [] \<longrightarrow>
        ioas_hwpt_list (ioass s' (hwpt_ioas (hwpts s hwpt))) =
          ioas_hwpt_list (ioass s (hwpt_ioas (hwpts s hwpt))) \<and>
        iopt_domains (ioass s' (hwpt_ioas (hwpts s hwpt))) =
          iopt_domains (ioass s (hwpt_ioas (hwpts s hwpt)))) \<and>
     (\<not> hwpt_auto_domain (hwpts s hwpt) \<longrightarrow>
        obj_users s' hwpt = obj_users s hwpt - 1 \<and> xa_objects s' hwpt = xa_objects s hwpt) \<and>
     (hwpt_auto_domain (hwpts s hwpt) \<longrightarrow>
        (if obj_users s hwpt = 2
         then xa_objects s' hwpt = XA_EMPTY \<and> obj_type s' hwpt = IOMMUFD_OBJ_NONE
         else obj_users s' hwpt = obj_users s hwpt - 1 \<and> xa_objects s' hwpt = xa_objects s hwpt)) \<and>
     idev_hwpt (idevs s' idev) = None \<and>
     obj_users s' idev = obj_users s idev - 1"
proof -
  define s' where "s' = the (iommufd_device_detach idev s)"
  have run: "iommufd_device_detach idev s = Some s'"
    using att by (simp add: s'_def iommufd_device_detach_def Let_def)
  note ev = s'_def detach_defs prim_defs Let_def att
  have 1: "hwpt_devices (hwpts s' hwpt) = remove1 idev (hwpt_devices (hwpts s hwpt))"
    by (simp add: ev)
  have 2: "idev \<notin> set (hwpt_devices (hwpts s' hwpt))" if "distinct (hwpt_devices (hwpts s hwpt))"
    using that by (simp add: 1)
  have 3: "ioas_hwpt_list (ioass s' (hwpt_ioas (hwpts s hwpt))) =
          remove1 hwpt (ioas_hwpt_list (ioass s (hwpt_ioas (hwpts s hwpt)))) \<and>
        iopt_domains (ioass s' (hwpt_ioas (hwpts s hwpt))) =
          remove1 (hwpt_domain (hwpts s hwpt)) (iopt_domains (ioass s (hwpt_ioas (hwpts s hwpt))))"
    if "hwpt_devices (hwpts s' hwpt) = []"
    using that[unfolded 1] by (simp add: ev)
  have 4: "ioas_hwpt_list (ioass s' (hwpt_ioas (hwpts s hwpt))) =
          ioas_hwpt_list (ioass s (hwpt_ioas (hwpts s hwpt))) \<and>
        iopt_domains (ioass s' (hwpt_ioas (hwpts s hwpt))) =
          iopt_domains (ioass s (hwpt_ioas (hwpts s hwpt)))"
    if "hwpt_devices (hwpts s' hwpt) \<noteq> []"
    using that[unfolded 1] by (simp add: ev)
  have 5: "obj_users s' hwpt = obj_users s hwpt - 1 \<and> xa_objects s' hwpt = xa_objects s hwpt"
    if "\<not> hwpt_auto_domain (hwpts s hwpt)"
    using ids that by (simp add: ev)
  have 6: "if obj_users s hwpt = 2
         then xa_objects s' hwpt = XA_EMPTY \<and> obj_type s' hwpt = IOMMUFD_OBJ_NONE
         else obj_users s' hwpt = obj_users s hwpt - 1 \<and> xa_objects s' hwpt = xa_objects s hwpt"
    if "hwpt_auto_domain (hwpts s hwpt)"
    using ids that by (simp add: ev)
  have 7: "idev_hwpt (idevs s' idev) = None \<and> obj_users s' idev = obj_users s idev - 1"
    using ids by (simp add: ev)
  from run 1 2 3 4 5 6 7 show ?thesis by blast
qed

text \<open>Scenario A: of the two bindings that share the auto-created HWPT 12, binding 11
  has detached; when binding 13 detaches too, HWPT 12 is destroyed.\<close>

theorem detach_effects_witness:
  "xa_objects (the (iommufd_device_detach 13 scenario_a_one_left)) 12 = XA_EMPTY \<and>
   idev_hwpt (idevs (the (iommufd_device_detach 13 scenario_a_one_left)) 13) = None"
  using detach_effects [of scenario_a_one_left 13 12] one_left_facts
  by auto

text \<open>Claim C5 as stated destroys an auto-created HWPT at every detach. When binding
  11 detaches first, HWPT 12 is auto-created and is still there, for binding 13.\<close>

theorem detach_keeps_shared_auto_hwpt_counterexample:
  "idev_hwpt (idevs scenario_a_both_attached 11) = Some 12 \<and>
   hwpt_auto_domain (hwpts scenario_a_both_attached 12) \<and>
   iommufd_device_detach 11 scenario_a_both_attached \<noteq> None \<and>
   xa_objects (the (iommufd_device_detach 11 scenario_a_both_attached)) 12 = XA_OBJECT"
  unfolding scenario_defs
  by (simp add: bind_defs registry_defs attach_defs iommufd_device_attach_def
      iommufd_device_auto_get_domain_def iommufd_device_detach_def prim_defs init_state_def quiet_env_def zero_device_def
      zero_hw_pagetable_def zero_ioas_def Let_def)


text \<open>
  Claim C7. The manually created HWPT 3 holds device 9 and is on the member list of
  the address space 10. The attach of device 4 to HWPT 3 succeeds and adds HWPT 3 to
  the member list a second time: line 361 of device.c calls \<open>list_add_tail\<close> without
  looking whether the HWPT is on the list.
\<close>

theorem attach_same_hwpt_listed_twice:
  "fst (iommufd_device_attach quiet_env 4 3 0 two_hwpt_state) = 0 \<and>
   \<not> hwpt_auto_domain (hwpts two_hwpt_state 3) \<and>
   ioas_hwpt_list (ioass two_hwpt_state 10) = [3] \<and>
   ioas_hwpt_list (ioass (snd (snd (iommufd_device_attach quiet_env 4 3 0 two_hwpt_state))) 10)
     = [3, 3]"
  by (simp add: iommufd_device_attach_def registry_defs attach_defs prim_defs fixture_defs)

section \<open>Automatic domain selection\<close>











end
